theory Spec2Isabelle
  imports Complex_Main
begin

section \<open>GLSL values\<close>

text \<open>
  The two shader stages of the renderer are embedded as pure functions. A GLSL
  \<^verbatim>\<open>float\<close> is modelled by a real number: rounding, infinities and NaN are outside
  the model. Vectors and matrices are the GLSL ones: a matrix is the tuple of its
  columns (GLSL stores and constructs matrices column by column).
\<close>

datatype vec2 = Vec2 real real

datatype vec3 = Vec3 real real real

datatype vec4 = Vec4 real real real real

datatype mat3 = Mat3 vec3 vec3 vec3

datatype mat4 = Mat4 vec4 vec4 vec4 vec4

text \<open>Component-wise \<^verbatim>\<open>+\<close>, \<^verbatim>\<open>-\<close>, unary minus and \<^verbatim>\<open>vec3(0)\<close>.\<close>

instantiation vec3 :: ab_group_add
begin

fun plus_vec3 :: "vec3 \<Rightarrow> vec3 \<Rightarrow> vec3" where
  "plus_vec3 (Vec3 a b c) (Vec3 d e f) = Vec3 (a + d) (b + e) (c + f)"

fun minus_vec3 :: "vec3 \<Rightarrow> vec3 \<Rightarrow> vec3" where
  "minus_vec3 (Vec3 a b c) (Vec3 d e f) = Vec3 (a - d) (b - e) (c - f)"

fun uminus_vec3 :: "vec3 \<Rightarrow> vec3" where
  "uminus_vec3 (Vec3 a b c) = Vec3 (- a) (- b) (- c)"

definition zero_vec3 :: vec3 where
  "zero_vec3 = Vec3 0 0 0"

instance
proof
  fix a b c :: vec3
  show "a + b + c = a + (b + c)"
    by (cases a; cases b; cases c) simp
  show "a + b = b + a"
    by (cases a; cases b) simp
  show "0 + a = a"
    by (cases a) (simp add: zero_vec3_def)
  show "- a + a = 0"
    by (cases a) (simp add: zero_vec3_def)
  show "a - b = a + - b"
    by (cases a; cases b) simp
qed

end

text \<open>Component-wise \<^verbatim>\<open>vec3 * vec3\<close>.\<close>

instantiation vec3 :: times
begin

fun times_vec3 :: "vec3 \<Rightarrow> vec3 \<Rightarrow> vec3" where
  "times_vec3 (Vec3 a b c) (Vec3 d e f) = Vec3 (a * d) (b * e) (c * f)"

instance ..

end

text \<open>\<^verbatim>\<open>float * vec3\<close>, \<^verbatim>\<open>vec3 * float\<close> and \<^verbatim>\<open>vec3 - float\<close>.\<close>

fun fmul_v3 :: "real \<Rightarrow> vec3 \<Rightarrow> vec3" where
  "fmul_v3 s (Vec3 a b c) = Vec3 (s * a) (s * b) (s * c)"

fun v3_mulf :: "vec3 \<Rightarrow> real \<Rightarrow> vec3" where
  "v3_mulf (Vec3 a b c) s = Vec3 (a * s) (b * s) (c * s)"

fun v3_subf :: "vec3 \<Rightarrow> real \<Rightarrow> vec3" where
  "v3_subf (Vec3 a b c) s = Vec3 (a - s) (b - s) (c - s)"

text \<open>Constructors and swizzles: \<^verbatim>\<open>vec4(v, w)\<close>, \<^verbatim>\<open>.xyz\<close> (the same components as \<^verbatim>\<open>.rgb\<close>), \<^verbatim>\<open>.r\<close> and \<^verbatim>\<open>.w\<close>.\<close>

fun vec4_of :: "vec3 \<Rightarrow> real \<Rightarrow> vec4" where
  "vec4_of (Vec3 a b c) w = Vec4 a b c w"

fun xyz :: "vec4 \<Rightarrow> vec3" where
  "xyz (Vec4 a b c d) = Vec3 a b c"

fun rgb :: "vec4 \<Rightarrow> vec3" where
  "rgb (Vec4 a b c d) = Vec3 a b c"

fun red :: "vec4 \<Rightarrow> real" where
  "red (Vec4 a b c d) = a"

fun w4 :: "vec4 \<Rightarrow> real" where
  "w4 (Vec4 a b c d) = d"

subsection \<open>Built-in functions\<close>

text \<open>
  The built-ins follow their definitions in the GLSL ES 3.00 specification:
  \<^verbatim>\<open>length(x) = sqrt(dot(x, x))\<close>, \<^verbatim>\<open>distance(p0, p1) = length(p0 - p1)\<close>,
  \<^verbatim>\<open>normalize(x) = x / length(x)\<close>, \<^verbatim>\<open>reflect(I, N) = I - 2 * dot(N, I) * N\<close>.
  GLSL leaves \<^verbatim>\<open>normalize\<close> of a zero-length vector undefined; here the division by
  zero of HOL makes it the zero vector, so nothing proved below relies on that value
  where the claim is about a defined result. \<^verbatim>\<open>pow(x, y)\<close> is the real power; GLSL
  leaves it undefined for \<^verbatim>\<open>x < 0\<close> and for \<^verbatim>\<open>x = 0\<close> with \<^verbatim>\<open>y <= 0\<close>.
\<close>

fun dot3 :: "vec3 \<Rightarrow> vec3 \<Rightarrow> real" where
  "dot3 (Vec3 a b c) (Vec3 d e f) = a * d + b * e + c * f"

fun dot4 :: "vec4 \<Rightarrow> vec4 \<Rightarrow> real" where
  "dot4 (Vec4 a b c d) (Vec4 e f g h) = a * e + b * f + c * g + d * h"

definition length3 :: "vec3 \<Rightarrow> real" where
  "length3 v = sqrt (dot3 v v)"

definition length4 :: "vec4 \<Rightarrow> real" where
  "length4 v = sqrt (dot4 v v)"

fun v3_divf :: "vec3 \<Rightarrow> real \<Rightarrow> vec3" where
  "v3_divf (Vec3 a b c) s = Vec3 (a / s) (b / s) (c / s)"

fun v4_divf :: "vec4 \<Rightarrow> real \<Rightarrow> vec4" where
  "v4_divf (Vec4 a b c d) s = Vec4 (a / s) (b / s) (c / s) (d / s)"

definition normalize3 :: "vec3 \<Rightarrow> vec3" where
  "normalize3 v = v3_divf v (length3 v)"

definition normalize4 :: "vec4 \<Rightarrow> vec4" where
  "normalize4 v = v4_divf v (length4 v)"

definition distance3 :: "vec3 \<Rightarrow> vec3 \<Rightarrow> real" where
  "distance3 p0 p1 = length3 (p0 - p1)"

fun cross :: "vec3 \<Rightarrow> vec3 \<Rightarrow> vec3" where
  "cross (Vec3 a b c) (Vec3 d e f) = Vec3 (b * f - e * c) (c * d - f * a) (a * e - d * b)"

definition reflect :: "vec3 \<Rightarrow> vec3 \<Rightarrow> vec3" where
  "reflect I N = I - fmul_v3 (2 * dot3 N I) N"

definition pow :: "real \<Rightarrow> real \<Rightarrow> real" where
  "pow x y = x powr y"

text \<open>A \<^verbatim>\<open>sampler2D\<close> is the texture it is bound to: a texel for every coordinate.\<close>

type_synonym sampler2D = "vec2 \<Rightarrow> vec4"

definition texture :: "sampler2D \<Rightarrow> vec2 \<Rightarrow> vec4" where
  "texture s uv = s uv"

subsection \<open>Matrices\<close>

text \<open>
  \<^verbatim>\<open>m * v\<close> is the linear-algebraic product: component \<open>r\<close> of the result is the sum
  over the columns \<open>c\<close> of \<^verbatim>\<open>m[c][r] * v[c]\<close>. \<^verbatim>\<open>a * b\<close> on matrices multiplies
  \<open>a\<close> with each column of \<open>b\<close>.
\<close>

fun mul_m3v3 :: "mat3 \<Rightarrow> vec3 \<Rightarrow> vec3" where
  "mul_m3v3 (Mat3 (Vec3 a0 a1 a2) (Vec3 b0 b1 b2) (Vec3 c0 c1 c2)) (Vec3 x y z) =
     Vec3 (a0 * x + b0 * y + c0 * z) (a1 * x + b1 * y + c1 * z) (a2 * x + b2 * y + c2 * z)"

fun transpose3 :: "mat3 \<Rightarrow> mat3" where
  "transpose3 (Mat3 (Vec3 a0 a1 a2) (Vec3 b0 b1 b2) (Vec3 c0 c1 c2)) =
     Mat3 (Vec3 a0 b0 c0) (Vec3 a1 b1 c1) (Vec3 a2 b2 c2)"

fun mul_m4v4 :: "mat4 \<Rightarrow> vec4 \<Rightarrow> vec4" where
  "mul_m4v4 (Mat4 (Vec4 a0 a1 a2 a3) (Vec4 b0 b1 b2 b3) (Vec4 c0 c1 c2 c3) (Vec4 d0 d1 d2 d3))
            (Vec4 x y z w) =
     Vec4 (a0 * x + b0 * y + c0 * z + d0 * w) (a1 * x + b1 * y + c1 * z + d1 * w)
          (a2 * x + b2 * y + c2 * z + d2 * w) (a3 * x + b3 * y + c3 * z + d3 * w)"

fun mul_m4m4 :: "mat4 \<Rightarrow> mat4 \<Rightarrow> mat4" where
  "mul_m4m4 m (Mat4 c0 c1 c2 c3) =
     Mat4 (mul_m4v4 m c0) (mul_m4v4 m c1) (mul_m4v4 m c2) (mul_m4v4 m c3)"

section \<open>The fragment stage\<close>

definition MAX_LIGHTS :: nat where
  "MAX_LIGHTS = 16"

record AmbientLight =
  a_color :: vec3
  a_intensity :: real

record DirectionalLight =
  d_direction :: vec3
  d_color :: vec3
  d_intensity :: real

record PointLight =
  p_position :: vec3
  p_color :: vec3
  p_intensity :: real

record Material =
  kA :: vec3
  kD :: vec3
  kS :: vec3
  shininess :: real
  map_kD :: sampler2D
  map_nS :: sampler2D
  map_norm :: sampler2D

text \<open>
  The three values the vertex stage hands to the fragment stage, and the uniforms of
  the fragment stage. A uniform array of \<^verbatim>\<open>MAX_LIGHTS\<close> lights is the function from
  its indices; the shader reads it below \<^verbatim>\<open>MAX_LIGHTS\<close> only.
\<close>

record varyings =
  o_vertex_position_world :: vec3
  tbn :: mat3
  tex_coords :: vec2

record frag_uniforms =
  u_show_normals :: bool
  u_lights_ambient :: "nat \<Rightarrow> AmbientLight"
  u_lights_directional :: "nat \<Rightarrow> DirectionalLight"
  u_lights_point :: "nat \<Rightarrow> PointLight"
  u_material :: Material
  u_eye :: vec3

text \<open>
  The shading functions read the global input \<^verbatim>\<open>tex_coords\<close>; it is their first
  argument here. Each \<^verbatim>\<open>result += e\<close> of the source is one \<open>let\<close>.
\<close>

definition shadeAmbientLight :: "vec2 \<Rightarrow> Material \<Rightarrow> AmbientLight \<Rightarrow> vec3" where
  "shadeAmbientLight tc material light =
     (if a_intensity light = 0 then Vec3 0 0 0
      else v3_mulf (a_color light) (a_intensity light) * kA material
             * rgb (texture (map_kD material) tc))"

definition shadeDirectionalLight ::
  "vec2 \<Rightarrow> Material \<Rightarrow> DirectionalLight \<Rightarrow> vec3 \<Rightarrow> vec3 \<Rightarrow> vec3 \<Rightarrow> vec3" where
  "shadeDirectionalLight tc material light normal eye vertex_position =
     (if d_intensity light = 0 then Vec3 0 0 0
      else
        let result = Vec3 0 0 0;
            N = normalize3 normal;
            L = - normalize3 (d_direction light);
            V = normalize3 (vertex_position - eye);
            LN = max (dot3 L N) 0;
            result = result
              + v3_mulf (fmul_v3 LN (d_color light)) (d_intensity light) * kD material
                  * rgb (texture (map_kD material) tc);
            R = reflect L N;
            result = result
              + v3_mulf
                  (fmul_v3
                     (pow (max (dot3 R V) 0)
                        (shininess material * red (texture (map_nS material) tc)))
                     (d_color light))
                  (d_intensity light) * kS material
        in result)"

definition shadePointLight ::
  "vec2 \<Rightarrow> Material \<Rightarrow> PointLight \<Rightarrow> vec3 \<Rightarrow> vec3 \<Rightarrow> vec3 \<Rightarrow> vec3" where
  "shadePointLight tc material light normal eye vertex_position =
     (let result = Vec3 0 0 0 in
      if p_intensity light = 0 then result
      else
        let N = normalize3 normal;
            D = distance3 (p_position light) vertex_position;
            L = normalize3 (p_position light - vertex_position);
            V = normalize3 (vertex_position - eye);
            LN = max (dot3 L N) 0;
            result = result
              + v3_mulf (fmul_v3 LN (p_color light)) (p_intensity light) * kD material
                  * rgb (texture (map_kD material) tc);
            R = reflect L N;
            result = result
              + v3_mulf
                  (fmul_v3
                     (pow (max (dot3 R V) 0)
                        (shininess material * red (texture (map_nS material) tc)))
                     (p_color light))
                  (p_intensity light) * kS material;
            result = v3_mulf result (1 / (D * D + 1))
        in result)"

text \<open>
  The first three statements of the fragment \<^verbatim>\<open>main\<close>: the normal-map sample is
  decoded, normalised, multiplied with the interpolated \<^verbatim>\<open>tbn\<close> and normalised again.
\<close>

definition frag_normal :: "frag_uniforms \<Rightarrow> varyings \<Rightarrow> vec3" where
  "frag_normal U I =
     (let normal = rgb (texture (map_norm (u_material U)) (tex_coords I));
          normal = normalize3 (v3_subf (v3_mulf normal 2) 1);
          normal = normalize3 (mul_m3v3 (tbn I) normal)
      in normal)"

text \<open>
  The light loop \<^verbatim>\<open>for (int i = 0; i < MAX_LIGHTS; i++)\<close>, from index \<open>i\<close> with the
  contribution accumulated so far.
\<close>

function light_loop :: "frag_uniforms \<Rightarrow> varyings \<Rightarrow> vec3 \<Rightarrow> nat \<Rightarrow> vec3 \<Rightarrow> vec3" where
  "light_loop U I normal i light_contribution =
     (if i < MAX_LIGHTS then
        let light_contribution = light_contribution
              + shadeAmbientLight (tex_coords I) (u_material U) (u_lights_ambient U i);
            light_contribution = light_contribution
              + shadeDirectionalLight (tex_coords I) (u_material U) (u_lights_directional U i)
                  normal (u_eye U) (o_vertex_position_world I);
            light_contribution = light_contribution
              + shadePointLight (tex_coords I) (u_material U) (u_lights_point U i)
                  normal (u_eye U) (o_vertex_position_world I)
        in light_loop U I normal (i + 1) light_contribution
      else light_contribution)"
  by pat_completeness auto
termination
  by (relation "measure (\<lambda>(U, I, normal, i, acc). MAX_LIGHTS - i)") auto

text \<open>The fragment \<^verbatim>\<open>main\<close>; its result is the output \<^verbatim>\<open>o_fragColor\<close>.\<close>

definition main_frag :: "frag_uniforms \<Rightarrow> varyings \<Rightarrow> vec4" where
  "main_frag U I =
     (let normal = frag_normal U I in
      if u_show_normals U = True then vec4_of normal 1
      else
        let light_contribution = Vec3 0 0 0;
            light_contribution = light_loop U I normal 0 light_contribution
        in vec4_of light_contribution 1)"

text \<open>What the three shading functions add at index \<open>i\<close> of the light arrays.\<close>

definition light_at :: "frag_uniforms \<Rightarrow> varyings \<Rightarrow> vec3 \<Rightarrow> nat \<Rightarrow> vec3" where
  "light_at U I normal i =
     shadeAmbientLight (tex_coords I) (u_material U) (u_lights_ambient U i)
     + shadeDirectionalLight (tex_coords I) (u_material U) (u_lights_directional U i)
         normal (u_eye U) (o_vertex_position_world I)
     + shadePointLight (tex_coords I) (u_material U) (u_lights_point U i)
         normal (u_eye U) (o_vertex_position_world I)"

text \<open>
  The diffuse and the specular term of a directional or point light in the words of the
  specification: \<^verbatim>\<open>max(L.N, 0) * color * intensity * kD * diffuseMapSample\<close> and
  \<^verbatim>\<open>max(R.V, 0)^exponent * color * intensity * kS\<close> with \<^verbatim>\<open>R = reflect(L, N)\<close>.
\<close>

definition diffuse_term :: "vec3 \<Rightarrow> vec3 \<Rightarrow> vec3 \<Rightarrow> real \<Rightarrow> vec3 \<Rightarrow> vec3 \<Rightarrow> vec3" where
  "diffuse_term L N color intensity kd diffuse_sample =
     v3_mulf (fmul_v3 (max (dot3 L N) 0) color) intensity * kd * diffuse_sample"

definition specular_term ::
  "vec3 \<Rightarrow> vec3 \<Rightarrow> vec3 \<Rightarrow> real \<Rightarrow> vec3 \<Rightarrow> real \<Rightarrow> vec3 \<Rightarrow> vec3" where
  "specular_term L N V exponent color intensity ks =
     v3_mulf (fmul_v3 (pow (max (dot3 (reflect L N) V) 0) exponent) color) intensity * ks"

section \<open>The vertex stage\<close>

record vert_attributes =
  a_position :: vec3
  a_normal :: vec3
  a_tangent :: vec3
  a_texture_coord :: vec2

record vert_uniforms =
  u_m :: mat4
  u_v :: mat4
  u_p :: mat4

text \<open>
  The locals \<^verbatim>\<open>T\<close> (before and after the re-orthogonalisation), \<^verbatim>\<open>N\<close> and \<^verbatim>\<open>B\<close> of the
  vertex \<^verbatim>\<open>main\<close>. The source normalises the transformed four-component vector and
  takes \<^verbatim>\<open>.xyz\<close> of the result.
\<close>

definition tbn_T0 :: "vert_uniforms \<Rightarrow> vert_attributes \<Rightarrow> vec3" where
  "tbn_T0 U A = xyz (normalize4 (mul_m4v4 (u_m U) (vec4_of (a_tangent A) 0)))"

definition tbn_N :: "vert_uniforms \<Rightarrow> vert_attributes \<Rightarrow> vec3" where
  "tbn_N U A = xyz (normalize4 (mul_m4v4 (u_m U) (vec4_of (a_normal A) 0)))"

definition tbn_T :: "vert_uniforms \<Rightarrow> vert_attributes \<Rightarrow> vec3" where
  "tbn_T U A =
     (let T = tbn_T0 U A; N = tbn_N U A
      in normalize3 (T - fmul_v3 (dot3 T N) N))"

definition tbn_B :: "vert_uniforms \<Rightarrow> vert_attributes \<Rightarrow> vec3" where
  "tbn_B U A = cross (tbn_N U A) (tbn_T U A)"

text \<open>The vertex \<^verbatim>\<open>main\<close>; its result is \<^verbatim>\<open>gl_Position\<close> and the three outputs.\<close>

definition main_vert :: "vert_uniforms \<Rightarrow> vert_attributes \<Rightarrow> vec4 \<times> varyings" where
  "main_vert U A =
     (let vertex_position_world = mul_m4v4 (u_m U) (vec4_of (a_position A) 1);
          gl_Position = mul_m4v4 (mul_m4m4 (u_p U) (u_v U)) vertex_position_world;
          T = xyz (normalize4 (mul_m4v4 (u_m U) (vec4_of (a_tangent A) 0)));
          N = xyz (normalize4 (mul_m4v4 (u_m U) (vec4_of (a_normal A) 0)));
          T = normalize3 (T - fmul_v3 (dot3 T N) N);
          B = cross N T
      in (gl_Position,
          \<lparr> o_vertex_position_world = xyz vertex_position_world,
            tbn = transpose3 (Mat3 T B N),
            tex_coords = a_texture_coord A \<rparr>))"

section \<open>Example inputs\<close>

text \<open>
  Textures, matrices and a material for the concrete scenes at which the theorems
  below are evaluated: a white texture, a normal map whose every texel decodes to
  \<open>(0, 0, 1)\<close>, and the identity matrices.
\<close>

definition white :: sampler2D where
  "white uv = Vec4 1 1 1 1"

definition flat_normals :: sampler2D where
  "flat_normals uv = Vec4 (1 / 2) (1 / 2) 1 1"

definition identity3 :: mat3 where
  "identity3 = Mat3 (Vec3 1 0 0) (Vec3 0 1 0) (Vec3 0 0 1)"

definition identity4 :: mat4 where
  "identity4 = Mat4 (Vec4 1 0 0 0) (Vec4 0 1 0 0) (Vec4 0 0 1 0) (Vec4 0 0 0 1)"

definition plain_material :: Material where
  "plain_material =
     \<lparr> kA = Vec3 1 1 1, kD = Vec3 (1 / 2) (1 / 2) (1 / 2), kS = Vec3 (1 / 4) (1 / 4) (1 / 4),
       shininess = 8, map_kD = white, map_nS = white, map_norm = flat_normals \<rparr>"

definition origin_fragment :: varyings where
  "origin_fragment =
     \<lparr> o_vertex_position_world = Vec3 0 0 0, tbn = identity3, tex_coords = Vec2 0 0 \<rparr>"

text \<open>Sixteen lights of each kind, all switched on.\<close>

definition bright_scene :: frag_uniforms where
  "bright_scene =
     \<lparr> u_show_normals = False,
       u_lights_ambient = (\<lambda>i. \<lparr> a_color = Vec3 1 1 1, a_intensity = 1 / 4 \<rparr>),
       u_lights_directional =
         (\<lambda>i. \<lparr> d_direction = Vec3 0 0 (- 1), d_color = Vec3 1 1 1, d_intensity = 1 \<rparr>),
       u_lights_point =
         (\<lambda>i. \<lparr> p_position = Vec3 0 0 5, p_color = Vec3 1 1 1, p_intensity = 1 \<rparr>),
       u_material = plain_material,
       u_eye = Vec3 0 0 10 \<rparr>"

text \<open>An ambient-only scene: every directional and point light is switched off.\<close>

definition ambient_scene :: frag_uniforms where
  "ambient_scene =
     \<lparr> u_show_normals = False,
       u_lights_ambient = (\<lambda>i. \<lparr> a_color = Vec3 1 (1 / 2) 0, a_intensity = real i / 8 \<rparr>),
       u_lights_directional =
         (\<lambda>i. \<lparr> d_direction = Vec3 0 0 0, d_color = Vec3 1 1 1, d_intensity = 0 \<rparr>),
       u_lights_point =
         (\<lambda>i. \<lparr> p_position = Vec3 0 0 0, p_color = Vec3 1 1 1, p_intensity = 0 \<rparr>),
       u_material = plain_material,
       u_eye = Vec3 0 0 10 \<rparr>"

text \<open>A normal map whose every texel decodes to \<open>(0, 0, -1)\<close>, and a scene with the debug flag on.\<close>

definition inward_normals :: sampler2D where
  "inward_normals uv = Vec4 (1 / 2) (1 / 2) 0 1"

definition debug_scene :: frag_uniforms where
  "debug_scene = bright_scene \<lparr> u_show_normals := True,
      u_material := plain_material \<lparr> map_norm := inward_normals \<rparr> \<rparr>"

text \<open>A material without specular reflection, a point light and a directional light along the z axis.\<close>

definition matte_material :: Material where
  "matte_material = plain_material \<lparr> kS := Vec3 0 0 0 \<rparr>"

definition lamp :: PointLight where
  "lamp = \<lparr> p_position = Vec3 0 0 5, p_color = Vec3 1 1 1, p_intensity = 1 \<rparr>"

definition sun :: "real \<Rightarrow> DirectionalLight" where
  "sun z = \<lparr> d_direction = Vec3 0 0 z, d_color = Vec3 1 1 1, d_intensity = 1 \<rparr>"

text \<open>
  Vertex-stage inputs: identity matrices with a vertex whose normal is the x axis and
  whose tangent is the y axis.
\<close>

definition upright_uniforms :: vert_uniforms where
  "upright_uniforms = \<lparr> u_m = identity4, u_v = identity4, u_p = identity4 \<rparr>"

definition side_vertex :: vert_attributes where
  "side_vertex =
     \<lparr> a_position = Vec3 0 0 0, a_normal = Vec3 1 0 0, a_tangent = Vec3 0 1 0,
       a_texture_coord = Vec2 0 0 \<rparr>"

text \<open>
  A translating model matrix, a scaling view matrix and a projection that copies
  \<open>z\<close> into \<open>w\<close>; a vertex whose tangent is not orthogonal to its normal.
\<close>

definition camera_uniforms :: vert_uniforms where
  "camera_uniforms =
     \<lparr> u_m = Mat4 (Vec4 1 0 0 0) (Vec4 0 1 0 0) (Vec4 0 0 1 0) (Vec4 1 2 3 1),
       u_v = Mat4 (Vec4 2 0 0 0) (Vec4 0 2 0 0) (Vec4 0 0 2 0) (Vec4 0 0 0 1),
       u_p = Mat4 (Vec4 1 0 0 0) (Vec4 0 1 0 0) (Vec4 0 0 1 1) (Vec4 0 0 0 0) \<rparr>"

definition slanted_vertex :: vert_attributes where
  "slanted_vertex =
     \<lparr> a_position = Vec3 1 1 1, a_normal = Vec3 0 0 2, a_tangent = Vec3 3 0 4,
       a_texture_coord = Vec2 (1 / 4) (3 / 4) \<rparr>"





text \<open>A vertex whose tangent is orthogonal to its normal.\<close>

definition flat_vertex :: vert_attributes where
  "flat_vertex =
     \<lparr> a_position = Vec3 1 1 1, a_normal = Vec3 0 0 2, a_tangent = Vec3 0 5 0,
       a_texture_coord = Vec2 0 0 \<rparr>"

section \<open>Basic facts\<close>

lemma Vec3_zero: "Vec3 0 0 0 = 0"
  by (simp add: zero_vec3_def)

lemma sum_const_vec3: "(\<Sum>i = 0..<n. Vec3 a b c) = Vec3 (real n * a) (real n * b) (real n * c)"
  by (induction n) (simp_all add: Vec3_zero [symmetric] algebra_simps)

lemma sqrt_25: "sqrt 25 = 5"
  by (rule real_sqrt_unique) simp_all

lemma sqrt_100: "sqrt 100 = 10"
  by (rule real_sqrt_unique) simp_all

lemma frag_normal_origin:
  "map_norm (u_material U) = flat_normals \<Longrightarrow> frag_normal U origin_fragment = Vec3 0 0 1"
  by (simp add: frag_normal_def origin_fragment_def flat_normals_def texture_def identity3_def
      normalize3_def length3_def)

section \<open>Intensity zero\<close>

text \<open>
  C2. A light of any of the three kinds whose intensity is exactly 0 contributes
  exactly the zero vector, whatever its other fields, the material, the normal, the
  eye and the fragment position are.
\<close>

theorem C2_zero_intensity:
  "(a_intensity al = 0 \<longrightarrow> shadeAmbientLight tc material al = Vec3 0 0 0)
   \<and> (d_intensity dl = 0 \<longrightarrow>
        shadeDirectionalLight tc material dl normal eye pos = Vec3 0 0 0)
   \<and> (p_intensity pl = 0 \<longrightarrow>
        shadePointLight tc material pl normal eye pos = Vec3 0 0 0)"
  by (simp add: shadeAmbientLight_def shadeDirectionalLight_def shadePointLight_def)

theorem C2_zero_intensity_witness:
  "shadeAmbientLight (Vec2 0 0) plain_material \<lparr> a_color = Vec3 1 1 1, a_intensity = 0 \<rparr>
     = Vec3 0 0 0
   \<and> shadeDirectionalLight (Vec2 0 0) plain_material
       \<lparr> d_direction = Vec3 0 0 0, d_color = Vec3 1 1 1, d_intensity = 0 \<rparr>
       (Vec3 0 0 1) (Vec3 0 0 10) (Vec3 0 0 0) = Vec3 0 0 0
   \<and> shadePointLight (Vec2 0 0) plain_material
       \<lparr> p_position = Vec3 0 0 0, p_color = Vec3 1 1 1, p_intensity = 0 \<rparr>
       (Vec3 0 0 1) (Vec3 0 0 10) (Vec3 0 0 0) = Vec3 0 0 0"
  using C2_zero_intensity
    [of "\<lparr> a_color = Vec3 1 1 1, a_intensity = 0 \<rparr>" "Vec2 0 0" plain_material
        "\<lparr> d_direction = Vec3 0 0 0, d_color = Vec3 1 1 1, d_intensity = 0 \<rparr>"
        "Vec3 0 0 1" "Vec3 0 0 10" "Vec3 0 0 0"
        "\<lparr> p_position = Vec3 0 0 0, p_color = Vec3 1 1 1, p_intensity = 0 \<rparr>"]
  by simp

section \<open>The light loop\<close>

lemma light_loop_sum:
  "light_loop U I normal i acc = acc + (\<Sum>k = i..<MAX_LIGHTS. light_at U I normal k)"
proof (induction U I normal i acc rule: light_loop.induct)
  case (1 U I normal i acc)
  show ?case
  proof (cases "i < MAX_LIGHTS")
    case True
    then show ?thesis
      using 1
      apply (subst light_loop.simps)
      apply (simp add: Let_def sum.atLeast_Suc_lessThan light_at_def add.assoc
          del: light_loop.simps)
      done
  next
    case False
    then show ?thesis by simp
  qed
qed

lemma main_frag_lit:
  "u_show_normals U = False \<Longrightarrow>
   main_frag U I = vec4_of (\<Sum>k = 0..<MAX_LIGHTS. light_at U I (frag_normal U I) k) 1"
  by (simp add: main_frag_def Let_def light_loop_sum Vec3_zero del: light_loop.simps)

text \<open>
  C7. With the debug flag off, the accumulated colour starts at black, every index
  below \<^verbatim>\<open>MAX_LIGHTS = 16\<close> adds the contributions of its ambient, directional and
  point light unconditionally, and the output is the sum with alpha 1: nothing is
  clamped, so a component may exceed 1 (as it does in the scene of the witness).
\<close>

theorem C7_light_accumulation:
  "MAX_LIGHTS = 16
   \<and> (u_show_normals U = False \<longrightarrow>
        main_frag U I =
          vec4_of
            (\<Sum>i = 0..<16.
               shadeAmbientLight (tex_coords I) (u_material U) (u_lights_ambient U i)
               + shadeDirectionalLight (tex_coords I) (u_material U) (u_lights_directional U i)
                   (frag_normal U I) (u_eye U) (o_vertex_position_world I)
               + shadePointLight (tex_coords I) (u_material U) (u_lights_point U i)
                   (frag_normal U I) (u_eye U) (o_vertex_position_world I))
            1)"
  using main_frag_lit [of U I] by (simp add: MAX_LIGHTS_def light_at_def)

theorem C7_light_accumulation_witness:
  "MAX_LIGHTS = 16
   \<and> main_frag bright_scene origin_fragment = Vec4 (214 / 13) (214 / 13) (214 / 13) 1"
proof -
  have n: "frag_normal bright_scene origin_fragment = Vec3 0 0 1"
    by (rule frag_normal_origin) (simp add: bright_scene_def plain_material_def)
  show ?thesis
    using C7_light_accumulation [of bright_scene origin_fragment]
    by (simp add: n)
       (simp add: bright_scene_def origin_fragment_def plain_material_def white_def
          shadeAmbientLight_def shadeDirectionalLight_def shadePointLight_def texture_def
          normalize3_def length3_def distance3_def reflect_def pow_def sqrt_25 sqrt_100
          sum_const_vec3)
qed

section \<open>Ambient light\<close>

lemma ambient_formula:
  "shadeAmbientLight tc material al =
     v3_mulf (a_color al) (a_intensity al) * kA material * rgb (texture (map_kD material) tc)"
  by (cases "a_color al"; cases "kA material"; cases "rgb (texture (map_kD material) tc)")
     (simp add: shadeAmbientLight_def)

lemma light_at_ambient_only:
  "d_intensity (u_lights_directional U i) = 0 \<Longrightarrow> p_intensity (u_lights_point U i) = 0 \<Longrightarrow>
   light_at U I normal i =
     v3_mulf (a_color (u_lights_ambient U i)) (a_intensity (u_lights_ambient U i))
       * kA (u_material U) * rgb (texture (map_kD (u_material U)) (tex_coords I))"
  by (simp add: light_at_def ambient_formula shadeDirectionalLight_def shadePointLight_def
      Vec3_zero)

lemma main_frag_ambient_only:
  assumes "u_show_normals U = False"
    and "\<forall>i<MAX_LIGHTS. d_intensity (u_lights_directional U i) = 0
           \<and> p_intensity (u_lights_point U i) = 0"
  shows "main_frag U I =
     vec4_of
       (\<Sum>i = 0..<MAX_LIGHTS.
          v3_mulf (a_color (u_lights_ambient U i)) (a_intensity (u_lights_ambient U i))
            * kA (u_material U) * rgb (texture (map_kD (u_material U)) (tex_coords I)))
       1"
proof -
  have "(\<Sum>k = 0..<MAX_LIGHTS. light_at U I (frag_normal U I) k) =
        (\<Sum>i = 0..<MAX_LIGHTS.
          v3_mulf (a_color (u_lights_ambient U i)) (a_intensity (u_lights_ambient U i))
            * kA (u_material U) * rgb (texture (map_kD (u_material U)) (tex_coords I)))"
    by (rule sum.cong) (use assms(2) in \<open>simp_all add: light_at_ambient_only\<close>)
  then show ?thesis
    using main_frag_lit [OF assms(1), of I] by simp
qed

text \<open>
  C5. An ambient light with non-zero intensity contributes
  \<^verbatim>\<open>color * intensity * kA * diffuseMapSample\<close>. In an ambient-only scene (debug flag
  off, every directional and point intensity 0) the output colour is the sum of these
  terms over the sixteen indices, with alpha 1, and it does not change when the normal
  map, the TBN matrix, the eye position and the fragment's world position are replaced.
\<close>

theorem C5_ambient:
  "(a_intensity al \<noteq> 0 \<longrightarrow>
      shadeAmbientLight tc material al =
        v3_mulf (a_color al) (a_intensity al) * kA material * rgb (texture (map_kD material) tc))
   \<and> (u_show_normals U = False
        \<and> (\<forall>i<MAX_LIGHTS. d_intensity (u_lights_directional U i) = 0
              \<and> p_intensity (u_lights_point U i) = 0) \<longrightarrow>
        main_frag U I =
          vec4_of
            (\<Sum>i = 0..<16.
               v3_mulf (a_color (u_lights_ambient U i)) (a_intensity (u_lights_ambient U i))
                 * kA (u_material U) * rgb (texture (map_kD (u_material U)) (tex_coords I)))
            1
        \<and> main_frag
            (U \<lparr> u_eye := eye_b, u_material := (u_material U) \<lparr> map_norm := norm_b \<rparr> \<rparr>)
            (I \<lparr> tbn := tbn_b, o_vertex_position_world := pos_b \<rparr>)
          = main_frag U I)"
proof (intro conjI impI)
  show "shadeAmbientLight tc material al =
        v3_mulf (a_color al) (a_intensity al) * kA material * rgb (texture (map_kD material) tc)"
    by (rule ambient_formula)
next
  assume a: "u_show_normals U = False
        \<and> (\<forall>i<MAX_LIGHTS. d_intensity (u_lights_directional U i) = 0
              \<and> p_intensity (u_lights_point U i) = 0)"
  then show "main_frag U I =
          vec4_of
            (\<Sum>i = 0..<16.
               v3_mulf (a_color (u_lights_ambient U i)) (a_intensity (u_lights_ambient U i))
                 * kA (u_material U) * rgb (texture (map_kD (u_material U)) (tex_coords I)))
            1"
    using main_frag_ambient_only [of U I] by (simp add: MAX_LIGHTS_def)
  from a show "main_frag
            (U \<lparr> u_eye := eye_b, u_material := (u_material U) \<lparr> map_norm := norm_b \<rparr> \<rparr>)
            (I \<lparr> tbn := tbn_b, o_vertex_position_world := pos_b \<rparr>)
          = main_frag U I"
    using main_frag_ambient_only [of U I]
      main_frag_ambient_only [of "U \<lparr> u_eye := eye_b, u_material := (u_material U) \<lparr> map_norm := norm_b \<rparr> \<rparr>"
         "I \<lparr> tbn := tbn_b, o_vertex_position_world := pos_b \<rparr>"]
    by simp
qed

lemma sum_ambient_scene:
  "(\<Sum>i = 0..<16. Vec3 (real i / 8) (real i / 16) 0) = Vec3 15 (15 / 2) 0"
  by (simp add: eval_nat_numeral Vec3_zero [symmetric])

theorem C5_ambient_witness:
  "shadeAmbientLight (Vec2 0 0) plain_material \<lparr> a_color = Vec3 1 (1 / 2) 0, a_intensity = 2 \<rparr>
     = Vec3 2 1 0
   \<and> main_frag ambient_scene origin_fragment = Vec4 15 (15 / 2) 0 1
   \<and> main_frag
       (ambient_scene \<lparr> u_eye := Vec3 7 7 7,
          u_material := (u_material ambient_scene) \<lparr> map_norm := inward_normals \<rparr> \<rparr>)
       (origin_fragment \<lparr> tbn := Mat3 (Vec3 0 1 0) (Vec3 0 0 1) (Vec3 1 0 0),
          o_vertex_position_world := Vec3 3 4 5 \<rparr>)
     = Vec4 15 (15 / 2) 0 1"
  using C5_ambient [where al = "\<lparr> a_color = Vec3 1 (1 / 2) 0, a_intensity = 2 \<rparr>"
      and tc = "Vec2 0 0" and material = plain_material and U = ambient_scene
      and I = origin_fragment and eye_b = "Vec3 7 7 7" and norm_b = inward_normals
      and tbn_b = "Mat3 (Vec3 0 1 0) (Vec3 0 0 1) (Vec3 1 0 0)" and pos_b = "Vec3 3 4 5"]
  by (simp add: ambient_scene_def origin_fragment_def plain_material_def white_def texture_def
      MAX_LIGHTS_def sum_ambient_scene)

section \<open>The debug output\<close>

text \<open>
  C6. With the show-normals flag on, the output is \<^verbatim>\<open>vec4(normal, 1.0)\<close> for the
  normal computed from the normal-map sample and the TBN matrix, its components written
  as they are (the witness scene outputs a negative one). No light is accumulated: any
  other uniforms with the flag on and the same normal-map sample at the texture
  coordinate, and any other world position, give the same output.
\<close>

theorem C6_debug_normals:
  "u_show_normals U = True \<longrightarrow>
     main_frag U I =
       vec4_of
         (normalize3
            (mul_m3v3 (tbn I)
               (normalize3
                  (v3_subf
                     (v3_mulf (rgb (texture (map_norm (u_material U)) (tex_coords I))) 2) 1))))
         1
     \<and> (u_show_normals U_b = True
          \<and> texture (map_norm (u_material U_b)) (tex_coords I)
              = texture (map_norm (u_material U)) (tex_coords I) \<longrightarrow>
          main_frag U_b (I \<lparr> o_vertex_position_world := pos_b \<rparr>) = main_frag U I)"
  by (simp add: main_frag_def frag_normal_def Let_def)

theorem C6_debug_normals_witness:
  "main_frag debug_scene origin_fragment = Vec4 0 0 (- 1) 1
   \<and> main_frag
       (ambient_scene \<lparr> u_show_normals := True,
          u_material := matte_material \<lparr> map_norm := inward_normals \<rparr> \<rparr>)
       (origin_fragment \<lparr> o_vertex_position_world := Vec3 3 4 5 \<rparr>)
     = Vec4 0 0 (- 1) 1"
  using C6_debug_normals [where U = debug_scene and I = origin_fragment
      and U_b = "ambient_scene \<lparr> u_show_normals := True,
          u_material := matte_material \<lparr> map_norm := inward_normals \<rparr> \<rparr>"
      and pos_b = "Vec3 3 4 5"]
  by (simp add: debug_scene_def bright_scene_def ambient_scene_def origin_fragment_def
      plain_material_def matte_material_def inward_normals_def texture_def identity3_def
      normalize3_def length3_def)

section \<open>Point and directional lights\<close>

lemma v3_plus_zero: "Vec3 0 0 0 + v = v"
  by (simp add: Vec3_zero)

text \<open>
  C3. A point light with non-zero intensity contributes the sum of its diffuse and
  specular term times \<^verbatim>\<open>1 / (D * D + 1)\<close>, with \<open>D\<close> the distance from the light to
  the fragment, \<open>L\<close> the normalised vector from the fragment to the light, \<open>N\<close> the
  normalised normal and \<open>V\<close> the normalised vector from the eye to the fragment. The
  divisor is never 0, and for a light at the fragment's position the factor is 1.
\<close>

theorem C3_point_light:
  "p_intensity light \<noteq> 0 \<longrightarrow>
     (let D = distance3 (p_position light) pos;
          L = normalize3 (p_position light - pos);
          N = normalize3 normal;
          V = normalize3 (pos - eye);
          diffuse = diffuse_term L N (p_color light) (p_intensity light) (kD material)
                      (rgb (texture (map_kD material) tc));
          specular = specular_term L N V
                       (shininess material * red (texture (map_nS material) tc))
                       (p_color light) (p_intensity light) (kS material)
      in shadePointLight tc material light normal eye pos
           = v3_mulf (diffuse + specular) (1 / (D * D + 1))
         \<and> D * D + 1 \<noteq> 0
         \<and> (p_position light = pos \<longrightarrow> 1 / (D * D + 1) = 1))"
proof -
  have pos: "D * D + 1 \<noteq> 0" for D :: real
    using zero_le_square [of D] by linarith
  have zero: "distance3 p p = 0" for p
    by (simp add: distance3_def length3_def Vec3_zero [symmetric])
  show ?thesis
    by (simp add: shadePointLight_def Let_def diffuse_term_def specular_term_def
        v3_plus_zero pos zero)
qed

theorem C3_point_light_witness:
  "p_intensity lamp = 1
   \<and> shadePointLight (Vec2 0 0) plain_material lamp (Vec3 0 0 1) (Vec3 0 0 10) (Vec3 0 0 0)
     = v3_mulf (Vec3 (1 / 2) (1 / 2) (1 / 2) + Vec3 (1 / 4) (1 / 4) (1 / 4)) (1 / (25 + 1))
   \<and> 1 / (distance3 (Vec3 0 0 5) (Vec3 0 0 5) * distance3 (Vec3 0 0 5) (Vec3 0 0 5) + 1) = 1"
  using C3_point_light [where light = lamp and pos = "Vec3 0 0 0" and normal = "Vec3 0 0 1"
      and eye = "Vec3 0 0 10" and material = plain_material and tc = "Vec2 0 0"]
    C3_point_light [where light = lamp and pos = "Vec3 0 0 5" and normal = "Vec3 0 0 1"
      and eye = "Vec3 0 0 10" and material = plain_material and tc = "Vec2 0 0"]
  by (simp add: lamp_def plain_material_def white_def texture_def Let_def
      diffuse_term_def specular_term_def normalize3_def length3_def distance3_def
      reflect_def pow_def sqrt_25 sqrt_100)

text \<open>
  C4, as stated: the incidence vector is the negated direction. The source negates the
  normalised direction, so for a direction of length 2 the function returns half of the
  diffuse term that the stated formula gives.
\<close>

theorem C4_directional_light_literal_counterexample:
  "shadeDirectionalLight (Vec2 0 0) matte_material (sun (- 2)) (Vec3 0 0 1) (Vec3 0 0 10)
       (Vec3 0 0 0)
     = Vec3 (1 / 2) (1 / 2) (1 / 2)
   \<and> diffuse_term (- d_direction (sun (- 2))) (Vec3 0 0 1) (d_color (sun (- 2)))
         (d_intensity (sun (- 2))) (kD matte_material)
         (rgb (texture (map_kD matte_material) (Vec2 0 0)))
       + specular_term (- d_direction (sun (- 2))) (Vec3 0 0 1)
           (normalize3 (Vec3 0 0 0 - Vec3 0 0 10))
           (shininess matte_material * red (texture (map_nS matte_material) (Vec2 0 0)))
           (d_color (sun (- 2))) (d_intensity (sun (- 2))) (kS matte_material)
     = Vec3 1 1 1"
  by (simp add: shadeDirectionalLight_def sun_def matte_material_def plain_material_def
      white_def texture_def Let_def diffuse_term_def specular_term_def normalize3_def
      length3_def reflect_def pow_def sqrt_100)

text \<open>
  C4, amended. A directional light with non-zero intensity contributes the sum of its
  diffuse and specular term, without attenuation, where \<open>L\<close> is the negated normalised
  direction, \<open>N\<close> the normalised normal and \<open>V\<close> the normalised vector from the eye to
  the fragment. A negative \<open>L.N\<close> makes the diffuse term exactly zero, and a negative
  \<open>R.V\<close> makes the specular term exactly zero when the exponent is positive.
\<close>

theorem C4_directional_light:
  "d_intensity light \<noteq> 0 \<longrightarrow>
     (let L = - normalize3 (d_direction light);
          N = normalize3 normal;
          V = normalize3 (pos - eye);
          exponent = shininess material * red (texture (map_nS material) tc);
          diffuse = diffuse_term L N (d_color light) (d_intensity light) (kD material)
                      (rgb (texture (map_kD material) tc));
          specular = specular_term L N V exponent
                       (d_color light) (d_intensity light) (kS material)
      in shadeDirectionalLight tc material light normal eye pos = diffuse + specular
         \<and> (dot3 L N < 0 \<longrightarrow> diffuse = Vec3 0 0 0)
         \<and> (dot3 (reflect L N) V < 0 \<and> 0 < exponent \<longrightarrow> specular = Vec3 0 0 0))"
proof -
  have z: "v3_mulf (fmul_v3 0 c) i * k = Vec3 0 0 0" for c i k
    by (cases c; cases k) simp
  have z2: "Vec3 0 0 0 * s = Vec3 0 0 0" for s
    by (cases s) simp
  show ?thesis
    by (simp add: shadeDirectionalLight_def Let_def diffuse_term_def specular_term_def
        v3_plus_zero z z2 pow_def max_def)
qed

theorem C4_directional_light_witness:
  "d_intensity (sun (- 2)) = 1 \<and> d_intensity (sun 2) = 1
   \<and> shadeDirectionalLight (Vec2 0 0) plain_material (sun (- 2)) (Vec3 0 0 1) (Vec3 0 0 10)
       (Vec3 0 0 0)
     = Vec3 (1 / 2) (1 / 2) (1 / 2) + Vec3 (1 / 4) (1 / 4) (1 / 4)
   \<and> shadeDirectionalLight (Vec2 0 0) plain_material (sun 2) (Vec3 0 0 1) (Vec3 0 0 10)
       (Vec3 0 0 0)
     = Vec3 0 0 0 + Vec3 0 0 0"
  using C4_directional_light [where light = "sun (- 2)" and pos = "Vec3 0 0 0"
      and normal = "Vec3 0 0 1" and eye = "Vec3 0 0 10" and material = plain_material
      and tc = "Vec2 0 0"]
    C4_directional_light [where light = "sun 2" and pos = "Vec3 0 0 0"
      and normal = "Vec3 0 0 1" and eye = "Vec3 0 0 10" and material = plain_material
      and tc = "Vec2 0 0"]
  by (simp add: sun_def plain_material_def white_def texture_def Let_def
      diffuse_term_def specular_term_def normalize3_def length3_def
      reflect_def pow_def sqrt_100)

section \<open>The vertex stage: positions\<close>

lemma mat4_exhaust:
  obtains a0 a1 a2 a3 b0 b1 b2 b3 c0 c1 c2 c3 d0 d1 d2 d3 where
    "m = Mat4 (Vec4 a0 a1 a2 a3) (Vec4 b0 b1 b2 b3) (Vec4 c0 c1 c2 c3) (Vec4 d0 d1 d2 d3)"
  by (metis mat4.exhaust vec4.exhaust)

lemma mul_m4m4_v4: "mul_m4v4 (mul_m4m4 P V) x = mul_m4v4 P (mul_m4v4 V x)"
  by (cases P rule: mat4_exhaust; cases V rule: mat4_exhaust; cases x)
     (simp add: algebra_simps)

lemma main_vert_tbn:
  "tbn (snd (main_vert U A)) = transpose3 (Mat3 (tbn_T U A) (tbn_B U A) (tbn_N U A))"
  by (simp add: main_vert_def Let_def tbn_T_def tbn_B_def tbn_N_def tbn_T0_def)

text \<open>
  C8. The clip-space position is projection times view times model times the position
  with \<open>w = 1\<close>, the world-space position is \<^verbatim>\<open>.xyz\<close> of model times that vector,
  and the texture coordinate is passed through unchanged.
\<close>

theorem C8_vertex_outputs:
  "fst (main_vert U A)
     = mul_m4v4 (u_p U) (mul_m4v4 (u_v U) (mul_m4v4 (u_m U) (vec4_of (a_position A) 1)))
   \<and> w4 (vec4_of (a_position A) 1) = 1
   \<and> o_vertex_position_world (snd (main_vert U A))
       = xyz (mul_m4v4 (u_m U) (vec4_of (a_position A) 1))
   \<and> tex_coords (snd (main_vert U A)) = a_texture_coord A"
  by (cases "a_position A") (simp add: main_vert_def Let_def mul_m4m4_v4)

theorem C8_vertex_outputs_witness:
  "fst (main_vert camera_uniforms slanted_vertex) = Vec4 4 6 8 8
   \<and> o_vertex_position_world (snd (main_vert camera_uniforms slanted_vertex)) = Vec3 2 3 4
   \<and> tex_coords (snd (main_vert camera_uniforms slanted_vertex)) = Vec2 (1 / 4) (3 / 4)"
  using C8_vertex_outputs [of camera_uniforms slanted_vertex]
  by (simp add: camera_uniforms_def slanted_vertex_def)

section \<open>The vertex stage: the TBN matrix\<close>

lemma side_T0: "tbn_T0 upright_uniforms side_vertex = Vec3 0 1 0"
  by (simp add: tbn_T0_def upright_uniforms_def side_vertex_def identity4_def
      normalize4_def length4_def)

lemma side_N: "tbn_N upright_uniforms side_vertex = Vec3 1 0 0"
  by (simp add: tbn_N_def upright_uniforms_def side_vertex_def identity4_def
      normalize4_def length4_def)

lemma side_T: "tbn_T upright_uniforms side_vertex = Vec3 0 1 0"
  by (simp add: tbn_T_def side_T0 side_N normalize3_def length3_def)

lemma side_B: "tbn_B upright_uniforms side_vertex = Vec3 0 0 1"
  by (simp add: tbn_B_def side_T side_N)

text \<open>
  C1. For every vertex, the stored matrix times a sample \<open>n\<close> is the vector of the
  dot products \<open>(T'.n, B.n, N.n)\<close>. With identity matrices, normal \<open>(1, 0, 0)\<close> and tangent
  \<open>(0, 1, 0)\<close> the frame is \<open>T' = (0, 1, 0)\<close>, \<open>B = (0, 0, 1)\<close>, \<open>N = (1, 0, 0)\<close>,
  which is orthonormal. The stored matrix times the sample \<open>n = (0, 0, 1)\<close> is
  \<open>(0, 1, 0)\<close>, whereas \<open>n.x * T' + n.y * B + n.z * N\<close> is \<open>N = (1, 0, 0)\<close>; the fragment
  stage's normal for a normal map that decodes to \<open>n\<close> is \<open>(0, 1, 0)\<close> as well.
\<close>

theorem C1_tbn_times_sample:
  "mul_m3v3 (tbn (snd (main_vert U A))) n
     = Vec3 (dot3 (tbn_T U A) n) (dot3 (tbn_B U A) n) (dot3 (tbn_N U A) n)
   \<and> tbn (snd (main_vert upright_uniforms side_vertex))
     = transpose3 (Mat3 (Vec3 0 1 0) (Vec3 0 0 1) (Vec3 1 0 0))
   \<and> mul_m3v3 (tbn (snd (main_vert upright_uniforms side_vertex))) (Vec3 0 0 1) = Vec3 0 1 0
   \<and> fmul_v3 0 (Vec3 0 1 0) + fmul_v3 0 (Vec3 0 0 1) + fmul_v3 1 (Vec3 1 0 0) = Vec3 1 0 0
   \<and> map_norm (u_material bright_scene) (Vec2 0 0) = Vec4 (1 / 2) (1 / 2) 1 1
   \<and> frag_normal bright_scene (snd (main_vert upright_uniforms side_vertex)) = Vec3 0 1 0"
proof -
  have "mul_m3v3 (transpose3 (Mat3 T B N)) n = Vec3 (dot3 T n) (dot3 B n) (dot3 N n)"
    for T B N
    by (cases T; cases B; cases N; cases n) simp
  then show ?thesis
    by (simp add: main_vert_tbn side_T side_B side_N frag_normal_def bright_scene_def
        plain_material_def flat_normals_def texture_def normalize3_def length3_def)
qed



lemma sqrt_9_25: "sqrt (9 / 25) = 3 / 5"
  by (rule real_sqrt_unique) (simp_all add: power2_eq_square)

lemma sum3_squares_pos:
  fixes x y z :: real
  assumes "x \<noteq> 0 \<or> y \<noteq> 0 \<or> z \<noteq> 0"
  shows "0 < x * x + y * y + z * z"
proof -
  have "0 \<le> x * x" "0 \<le> y * y" "0 \<le> z * z"
    by simp_all
  moreover have "0 < x * x \<or> 0 < y * y \<or> 0 < z * z"
    using assms by (auto simp: zero_less_mult_iff)
  ultimately show ?thesis
    by linarith
qed

lemma unit_xyz_normalize4:
  assumes "w4 v = 0" and "v \<noteq> Vec4 0 0 0 0"
  shows "dot3 (xyz (normalize4 v)) (xyz (normalize4 v)) = 1"
proof -
  obtain x y z w where v: "v = Vec4 x y z w"
    by (cases v)
  with assms have w: "w = 0" and nz: "x \<noteq> 0 \<or> y \<noteq> 0 \<or> z \<noteq> 0"
    by auto
  let ?s = "x * x + y * y + z * z"
  have s: "0 < ?s"
    by (rule sum3_squares_pos [OF nz])
  have "x * x / ?s + y * y / ?s + z * z / ?s = 1"
    using s by (simp add: add_divide_distrib [symmetric])
  then show ?thesis
    using s by (simp add: v w normalize4_def length4_def)
qed

lemma dot3_normalize3: "dot3 (normalize3 v) n = dot3 v n / length3 v"
  by (cases v; cases n) (simp add: normalize3_def add_divide_distrib)

lemma dot3_gram_schmidt: "dot3 (T - fmul_v3 d N) N = dot3 T N - d * dot3 N N"
  by (cases T; cases N) (simp add: algebra_simps)

lemma normalize3_unit: "dot3 v v = 1 \<Longrightarrow> normalize3 v = v"
  by (cases v) (simp add: normalize3_def length3_def)

lemma fmul_v3_zero: "v - fmul_v3 0 n = v"
  by (cases v; cases n) simp

lemma mul_m4v4_direction:
  "mul_m4v4 (Mat4 c0 c1 c2 d) (vec4_of v 0) = mul_m4v4 (Mat4 c0 c1 c2 c3) (vec4_of v 0)"
  by (cases c0; cases c1; cases c2; cases c3; cases d; cases v) simp


text \<open>
  Where the transformed normal has \<open>w\<close> component 0, as it has under every affine model
  matrix, the construction does what it is meant to do: the output is the transpose of
  the matrix with columns \<open>T'\<close>, \<open>B\<close>, \<open>N\<close> built by the step sequence, \<open>T'.N = 0\<close>
  when \<open>T'\<close> is well-defined and the transformed normal is non-zero, and replacing the
  translation column of the model matrix does not change the output matrix.
\<close>

lemma affine_direction:
  "w4 (mul_m4v4 (Mat4 (Vec4 a0 a1 a2 0) (Vec4 b0 b1 b2 0) (Vec4 c0 c1 c2 0) d) (vec4_of v 0)) = 0"
  by (cases d; cases v) simp

lemma tbn_construction_affine:
  "(let T = xyz (normalize4 (mul_m4v4 (u_m U) (vec4_of (a_tangent A) 0)));
        N = xyz (normalize4 (mul_m4v4 (u_m U) (vec4_of (a_normal A) 0)));
        T' = normalize3 (T - fmul_v3 (dot3 T N) N);
        B = cross N T'
    in tbn (snd (main_vert U A)) = transpose3 (Mat3 T' B N)
       \<and> (w4 (mul_m4v4 (u_m U) (vec4_of (a_normal A) 0)) = 0
            \<and> mul_m4v4 (u_m U) (vec4_of (a_normal A) 0) \<noteq> Vec4 0 0 0 0
            \<and> T - fmul_v3 (dot3 T N) N \<noteq> Vec3 0 0 0
            \<longrightarrow> dot3 T' N = 0))
   \<and> (u_m U = Mat4 c0 c1 c2 c3 \<longrightarrow>
        tbn (snd (main_vert (U \<lparr> u_m := Mat4 c0 c1 c2 d \<rparr>) A)) = tbn (snd (main_vert U A)))"
proof -
  have steps: "tbn (snd (main_vert U A)) =
      transpose3
        (Mat3 (normalize3 (tbn_T0 U A - fmul_v3 (dot3 (tbn_T0 U A) (tbn_N U A)) (tbn_N U A)))
           (cross (tbn_N U A)
              (normalize3 (tbn_T0 U A - fmul_v3 (dot3 (tbn_T0 U A) (tbn_N U A)) (tbn_N U A))))
           (tbn_N U A))"
    by (simp add: main_vert_def Let_def tbn_T0_def tbn_N_def)
  have orth: "dot3 (normalize3 (tbn_T0 U A - fmul_v3 (dot3 (tbn_T0 U A) (tbn_N U A)) (tbn_N U A)))
                (tbn_N U A) = 0"
    if "w4 (mul_m4v4 (u_m U) (vec4_of (a_normal A) 0)) = 0"
      and "mul_m4v4 (u_m U) (vec4_of (a_normal A) 0) \<noteq> Vec4 0 0 0 0"
  proof -
    from that have "dot3 (tbn_N U A) (tbn_N U A) = 1"
      by (simp add: tbn_N_def unit_xyz_normalize4)
    then show ?thesis
      by (simp add: dot3_normalize3 dot3_gram_schmidt)
  qed
  have moved: "tbn (snd (main_vert (U \<lparr> u_m := Mat4 c0 c1 c2 d \<rparr>) A))
             = tbn (snd (main_vert U A))" if "u_m U = Mat4 c0 c1 c2 c3"
    using that by (simp add: main_vert_def Let_def mul_m4v4_direction [of c0 c1 c2 d _ c3])
  show ?thesis
    using steps orth moved by (simp add: Let_def tbn_T0_def tbn_N_def)
qed

lemma tbn_construction_affine_example:
  "mul_m4v4 (u_m camera_uniforms) (vec4_of (a_normal slanted_vertex) 0) = Vec4 0 0 2 0
   \<and> w4 (mul_m4v4 (u_m camera_uniforms) (vec4_of (a_normal slanted_vertex) 0)) = 0
   \<and> tbn_T0 camera_uniforms slanted_vertex
       - fmul_v3 (dot3 (tbn_T0 camera_uniforms slanted_vertex)
                    (tbn_N camera_uniforms slanted_vertex))
           (tbn_N camera_uniforms slanted_vertex)
       = Vec3 (3 / 5) 0 0
   \<and> tbn (snd (main_vert camera_uniforms slanted_vertex))
       = transpose3 (Mat3 (Vec3 1 0 0) (Vec3 0 1 0) (Vec3 0 0 1))
   \<and> dot3 (Vec3 1 0 0) (Vec3 0 0 1) = 0
   \<and> tbn (snd (main_vert
        (camera_uniforms \<lparr> u_m := Mat4 (Vec4 1 0 0 0) (Vec4 0 1 0 0) (Vec4 0 0 1 0) (Vec4 7 8 9 1) \<rparr>)
        slanted_vertex))
     = tbn (snd (main_vert camera_uniforms slanted_vertex))"
proof -
  have m: "u_m camera_uniforms = Mat4 (Vec4 1 0 0 0) (Vec4 0 1 0 0) (Vec4 0 0 1 0) (Vec4 1 2 3 1)"
    by (simp add: camera_uniforms_def)
  have t4: "mul_m4v4 (Mat4 (Vec4 1 0 0 0) (Vec4 0 1 0 0) (Vec4 0 0 1 0) (Vec4 1 2 3 1))
              (vec4_of (a_tangent slanted_vertex) 0) = Vec4 3 0 4 0"
    by (simp add: slanted_vertex_def)
  have n4: "mul_m4v4 (Mat4 (Vec4 1 0 0 0) (Vec4 0 1 0 0) (Vec4 0 0 1 0) (Vec4 1 2 3 1))
              (vec4_of (a_normal slanted_vertex) 0) = Vec4 0 0 2 0"
    by (simp add: slanted_vertex_def)
  have T0: "xyz (normalize4 (Vec4 3 0 4 0)) = Vec3 (3 / 5) 0 (4 / 5)"
    by (simp add: normalize4_def length4_def sqrt_25)
  have N: "xyz (normalize4 (Vec4 0 0 2 0)) = Vec3 0 0 1"
    by (simp add: normalize4_def length4_def)
  have T: "normalize3 (Vec3 (3 / 5) 0 0) = Vec3 1 0 0"
    by (simp add: normalize3_def length3_def sqrt_9_25)
  show ?thesis
    using tbn_construction_affine [where U = camera_uniforms and A = slanted_vertex
        and ?c0.0 = "Vec4 1 0 0 0" and ?c1.0 = "Vec4 0 1 0 0" and ?c2.0 = "Vec4 0 0 1 0"
        and ?c3.0 = "Vec4 1 2 3 1" and d = "Vec4 7 8 9 1"]
    by (simp add: Let_def m t4 n4 T0 N T tbn_T0_def tbn_N_def)
qed


text \<open>
  Where the transformed tangent is non-zero with \<open>w\<close> component 0, as under every
  affine model matrix, \<open>T\<close> has unit length and the Gram-Schmidt step leaves an
  orthogonal tangent unchanged.
\<close>

lemma gram_schmidt_orthogonal_affine:
  "w4 (mul_m4v4 (u_m U) (vec4_of (a_tangent A) 0)) = 0
   \<and> mul_m4v4 (u_m U) (vec4_of (a_tangent A) 0) \<noteq> Vec4 0 0 0 0
   \<and> dot3 (tbn_T0 U A) (tbn_N U A) = 0
   \<longrightarrow> normalize3 (tbn_T0 U A - fmul_v3 (dot3 (tbn_T0 U A) (tbn_N U A)) (tbn_N U A))
         = tbn_T0 U A
       \<and> tbn_T U A = tbn_T0 U A"
proof (intro impI)
  assume a: "w4 (mul_m4v4 (u_m U) (vec4_of (a_tangent A) 0)) = 0
   \<and> mul_m4v4 (u_m U) (vec4_of (a_tangent A) 0) \<noteq> Vec4 0 0 0 0
   \<and> dot3 (tbn_T0 U A) (tbn_N U A) = 0"
  then have "dot3 (tbn_T0 U A) (tbn_T0 U A) = 1"
    by (simp add: tbn_T0_def unit_xyz_normalize4)
  with a show "normalize3 (tbn_T0 U A - fmul_v3 (dot3 (tbn_T0 U A) (tbn_N U A)) (tbn_N U A))
         = tbn_T0 U A
       \<and> tbn_T U A = tbn_T0 U A"
    by (simp add: tbn_T_def Let_def fmul_v3_zero normalize3_unit)
qed

lemma gram_schmidt_orthogonal_affine_example:
  "mul_m4v4 (u_m camera_uniforms) (vec4_of (a_tangent flat_vertex) 0) = Vec4 0 5 0 0
   \<and> w4 (mul_m4v4 (u_m camera_uniforms) (vec4_of (a_tangent flat_vertex) 0)) = 0
   \<and> dot3 (tbn_T0 camera_uniforms flat_vertex) (tbn_N camera_uniforms flat_vertex) = 0
   \<and> tbn_T0 camera_uniforms flat_vertex = Vec3 0 1 0
   \<and> tbn_T camera_uniforms flat_vertex = Vec3 0 1 0"
proof -
  have T0: "tbn_T0 camera_uniforms flat_vertex = Vec3 0 1 0"
    by (simp add: tbn_T0_def camera_uniforms_def flat_vertex_def normalize4_def length4_def
        sqrt_25)
  have N: "tbn_N camera_uniforms flat_vertex = Vec3 0 0 1"
    by (simp add: tbn_N_def camera_uniforms_def flat_vertex_def normalize4_def length4_def)
  have t4: "mul_m4v4 (u_m camera_uniforms) (vec4_of (a_tangent flat_vertex) 0) = Vec4 0 5 0 0"
    by (simp add: camera_uniforms_def flat_vertex_def)
  show ?thesis
    using gram_schmidt_orthogonal_affine [of camera_uniforms flat_vertex]
    by (simp add: t4 T0 N)
qed

end
